theory Spec2Isabelle
  imports Complex_Main "HOL-Library.Multiset"
begin

section \<open>JavaScript values used by the route handlers\<close>

text \<open>
  Strings are lists of 8-bit characters. A JavaScript number is an IEEE binary64 value:
  NaN, one of the two infinities, or a finite value, kept here as the rational it denotes
  (the two zeros are not told apart; no handler depends on the sign of zero).
\<close>

datatype jsnum = NaN | PosInfinity | NegInfinity | Finite rat

text \<open>
  WhiteSpace and LineTerminator code points that fit a character: TAB, LF, VT, FF, CR,
  SP and NBSP. Both \<open>String.prototype.trim\<close> and the string-to-number conversion strip
  exactly this class.
\<close>

definition StrWhiteSpaceChar :: "char \<Rightarrow> bool" where
  "StrWhiteSpaceChar c =
     (c \<in> set [CHR 0x09, CHR 0x0A, CHR 0x0B, CHR 0x0C, CHR 0x0D, CHR 0x20, CHR 0xA0])"

definition trim :: "string \<Rightarrow> string" where
  "trim s = rev (dropWhile StrWhiteSpaceChar (rev (dropWhile StrWhiteSpaceChar s)))"

subsection \<open>Rounding a rational to binary64\<close>

text \<open>The conversion of a decimal literal is taken as correctly rounded, as V8 computes it.\<close>

function bit_length :: "int \<Rightarrow> nat" where
  "bit_length n = (if n \<le> 0 then 0 else Suc (bit_length (n div 2)))"
  by pat_completeness auto
termination
  by (relation "measure nat") auto

declare bit_length.simps [simp del]

definition pow2 :: "int \<Rightarrow> rat" where
  "pow2 k = (if 0 \<le> k then 2 ^ nat k else 1 / 2 ^ nat (- k))"

definition floor_log2 :: "rat \<Rightarrow> int" where
  \<comment> \<open>for \<open>0 < q\<close>: the \<open>e\<close> with \<open>2 ^ e \<le> q < 2 ^ (e + 1)\<close>\<close>
  "floor_log2 q =
     (let (a, b) = quotient_of q;
          e0 = int (bit_length a) - int (bit_length b)
      in if pow2 e0 \<le> q then e0 else e0 - 1)"

definition round_half_even :: "rat \<Rightarrow> int" where
  "round_half_even r =
     (let f = \<lfloor>r\<rfloor>; d = r - of_int f
      in if d < 1 / 2 then f
         else if 1 / 2 < d then f + 1
         else if even f then f else f + 1)"

definition round_binary64 :: "rat \<Rightarrow> jsnum" where
  \<comment> \<open>round-to-nearest, ties-to-even, of a non-negative rational; 53-bit significand,
      least normal exponent -1022, overflow to infinity from \<open>2 ^ 1024\<close> on\<close>
  "round_binary64 q =
     (if q = 0 then Finite 0
      else let e = max (floor_log2 q) (- 1022);
               ulp = pow2 (e - 52);
               v = of_int (round_half_even (q / ulp)) * ulp
           in if pow2 1024 \<le> v then PosInfinity else Finite v)"

fun negate :: "jsnum \<Rightarrow> jsnum" where
  "negate NaN = NaN"
| "negate PosInfinity = NegInfinity"
| "negate NegInfinity = PosInfinity"
| "negate (Finite q) = Finite (- q)"

subsection \<open>\<open>Number(string)\<close>\<close>

definition digit_of :: "int \<Rightarrow> char \<Rightarrow> int option" where
  \<comment> \<open>the value of a digit character in the given radix (2, 8, 10 or 16)\<close>
  "digit_of radix c =
     (let n = (of_char c :: int);
          v = (if 48 \<le> n \<and> n \<le> 57 then Some (n - 48)
               else if 97 \<le> n \<and> n \<le> 102 then Some (n - 87)
               else if 65 \<le> n \<and> n \<le> 70 then Some (n - 55)
               else None)
      in case v of None \<Rightarrow> None | Some d \<Rightarrow> if d < radix then Some d else None)"

fun digits_value :: "int \<Rightarrow> int \<Rightarrow> string \<Rightarrow> int option" where
  "digits_value radix acc [] = Some acc"
| "digits_value radix acc (c # cs) =
     (case digit_of radix c of
        None \<Rightarrow> None
      | Some d \<Rightarrow> digits_value radix (radix * acc + d) cs)"

definition SignedInteger :: "string \<Rightarrow> int option" where
  \<comment> \<open>the exponent after \<open>e\<close>/\<open>E\<close>: an optional sign and at least one decimal digit\<close>
  "SignedInteger s =
     (let (neg, ds) = (case s of
                         c # cs \<Rightarrow> if c = CHR ''-'' then (True, cs)
                                   else if c = CHR ''+'' then (False, cs) else (False, s)
                       | [] \<Rightarrow> (False, s))
      in if ds = [] then None
         else case digits_value 10 0 ds of
                None \<Rightarrow> None
              | Some n \<Rightarrow> Some (if neg then - n else n))"

definition StrUnsignedDecimalLiteral :: "string \<Rightarrow> jsnum" where
  "StrUnsignedDecimalLiteral s =
     (if s = ''Infinity'' then PosInfinity
      else
        let is_e = (\<lambda>c. c = CHR ''e'' \<or> c = CHR ''E'');
            mant = takeWhile (\<lambda>c. \<not> is_e c) s;
            rest = dropWhile (\<lambda>c. \<not> is_e c) s;
            ip = takeWhile (\<lambda>c. c \<noteq> CHR ''.'') mant;
            dot = dropWhile (\<lambda>c. c \<noteq> CHR ''.'') mant;
            fp = (case dot of [] \<Rightarrow> [] | _ # cs \<Rightarrow> cs);
            ex = (case rest of [] \<Rightarrow> Some 0 | _ # cs \<Rightarrow> SignedInteger cs)
        in if ip = [] \<and> fp = [] then NaN
           else case (digits_value 10 0 (ip @ fp), ex) of
                  (Some m, Some x) \<Rightarrow>
                    (let k = x - int (length fp)
                     in round_binary64
                          (if 0 \<le> k then of_int m * 10 ^ nat k
                           else of_int m / 10 ^ nat (- k)))
                | _ \<Rightarrow> NaN)"

definition StrDecimalLiteral :: "string \<Rightarrow> jsnum" where
  "StrDecimalLiteral s =
     (case s of
        [] \<Rightarrow> NaN
      | c # cs \<Rightarrow>
          if c = CHR ''-'' then negate (StrUnsignedDecimalLiteral cs)
          else if c = CHR ''+'' then StrUnsignedDecimalLiteral cs
          else StrUnsignedDecimalLiteral s)"

definition NonDecimalIntegerLiteral :: "string \<Rightarrow> jsnum option" where
  \<comment> \<open>\<open>0x\<close>, \<open>0o\<close> and \<open>0b\<close> literals (either case of the letter), unsigned\<close>
  "NonDecimalIntegerLiteral s =
     (case s of
        z # p # ds \<Rightarrow>
          (let radix = (if p = CHR ''x'' \<or> p = CHR ''X'' then 16
                        else if p = CHR ''o'' \<or> p = CHR ''O'' then 8
                        else if p = CHR ''b'' \<or> p = CHR ''B'' then 2 else (0::int))
           in if z \<noteq> CHR ''0'' \<or> radix = 0 then None
              else if ds = [] then Some NaN
              else Some (case digits_value radix 0 ds of
                           None \<Rightarrow> NaN
                         | Some n \<Rightarrow> round_binary64 (of_int n)))
      | _ \<Rightarrow> None)"

definition Number :: "string \<Rightarrow> jsnum" where
  \<comment> \<open>\<open>Number(idParam)\<close> on a string: StringToNumber\<close>
  "Number s =
     (let t = trim s
      in if t = [] then Finite 0
         else case NonDecimalIntegerLiteral t of
                Some n \<Rightarrow> n
              | None \<Rightarrow> StrDecimalLiteral t)"

definition well_formed_positive_integer :: "string \<Rightarrow> bool" where
  \<comment> \<open>the spec's words for an acceptable id: decimal digits denoting a number above zero\<close>
  "well_formed_positive_integer s =
     (s \<noteq> [] \<and> (case digits_value 10 0 s of None \<Rightarrow> False | Some n \<Rightarrow> 0 < n))"

fun isInteger :: "jsnum \<Rightarrow> bool" where
  \<comment> \<open>\<open>Number.isInteger\<close>\<close>
  "isInteger (Finite q) = (of_int \<lfloor>q\<rfloor> = q)"
| "isInteger _ = False"

subsection \<open>Parsed JSON request bodies\<close>

datatype json =
  JNull | JBool bool | JNum jsnum | JStr string | JArr "json list" | JObj "(string \<times> json) list"

text \<open>A JavaScript value read out of a body: \<open>None\<close> is \<open>undefined\<close>.\<close>

type_synonym jsval = "json option"

datatype js_error = SyntaxError | TypeError | Error string

fun truthy :: "jsval \<Rightarrow> bool" where
  "truthy None = False"
| "truthy (Some JNull) = False"
| "truthy (Some (JBool b)) = b"
| "truthy (Some (JNum n)) = (n \<noteq> NaN \<and> n \<noteq> Finite 0)"
| "truthy (Some (JStr s)) = (s \<noteq> [])"
| "truthy (Some (JArr xs)) = True"
| "truthy (Some (JObj kvs)) = True"

fun property :: "json \<Rightarrow> string \<Rightarrow> js_error + jsval" where
  \<comment> \<open>reading a field that is no built-in property: \<open>null\<close> throws, an object gives the
      member (the last one of that name, as \<open>JSON.parse\<close> keeps it), anything else gives
      \<open>undefined\<close>\<close>
  "property JNull k = Inl TypeError"
| "property (JObj kvs) k = Inr (map_of (rev kvs) k)"
| "property (JBool b) k = Inr None"
| "property (JNum n) k = Inr None"
| "property (JStr s) k = Inr None"
| "property (JArr xs) k = Inr None"

definition destructure :: "json \<Rightarrow> js_error + (jsval \<times> jsval \<times> jsval)" where
  \<comment> \<open>\<open>const { petName, task, time } = body\<close>\<close>
  "destructure body =
     (case property body ''petName'' of
        Inl e \<Rightarrow> Inl e
      | Inr petName' \<Rightarrow>
          (case property body ''task'' of
             Inl e \<Rightarrow> Inl e
           | Inr task' \<Rightarrow>
               (case property body ''time'' of
                  Inl e \<Rightarrow> Inl e
                | Inr time' \<Rightarrow> Inr (petName', task', time'))))"

fun call_trim :: "jsval \<Rightarrow> js_error + string" where
  \<comment> \<open>\<open>v.trim()\<close>: only a string has the method\<close>
  "call_trim (Some (JStr s)) = Inr (trim s)"
| "call_trim _ = Inl TypeError"

text \<open>
  \<open>new Date(v).getTime()\<close> is the host's: which strings denote an instant is
  implementation-defined outside the ISO format. The handlers therefore take the host's
  constructor as a parameter, from a body value to milliseconds since the epoch, with
  \<open>None\<close> for an invalid date (\<open>getTime()\<close> is NaN).
\<close>

type_synonym date_ctor = "json \<Rightarrow> int option"

fun new_Date :: "date_ctor \<Rightarrow> jsval \<Rightarrow> int option" where
  "new_Date host None = None"
| "new_Date host (Some v) = host v"

section \<open>Persistence accessor (src/lib/db.ts)\<close>

record env =
  MYSQL_HOST :: "string option"
  MYSQL_DATABASE :: "string option"
  MYSQL_USER :: "string option"

fun unset :: "string option \<Rightarrow> bool" where
  \<comment> \<open>\<open>!v\<close> for an environment variable\<close>
  "unset None = True"
| "unset (Some s) = (s = [])"

definition getPool :: "env \<Rightarrow> js_error + unit" where
  \<comment> \<open>throws when a required variable is missing; the pool it otherwise creates once and
      returns is the table below, passed to the handlers as their state\<close>
  "getPool e =
     (if unset (MYSQL_HOST e) \<or> unset (MYSQL_DATABASE e) \<or> unset (MYSQL_USER e)
      then Inl (Error ''MySQL env variables are not fully set.'')
      else Inr ())"

section \<open>The logs table\<close>

text \<open>
  Modelled from the spec: the table definition (db/schema.sql) is not among the sources.
  One table keyed by an auto-incrementing integer id, with columns for pet name, task,
  event time, creation timestamp and update timestamp; \<open>createdAt\<close> is set once at
  insertion. Instants are milliseconds since the epoch. The table accepts every string and
  every instant it is given.
\<close>

record log_row =
  id' :: int
  petName :: string
  task :: string
  time :: int
  createdAt :: int
  updatedAt :: int

record store =
  logs :: "log_row list"
  auto_increment :: int

definition id_is :: "jsnum \<Rightarrow> log_row \<Rightarrow> bool" where
  \<comment> \<open>\<open>WHERE id = ?\<close> with a JavaScript number as the parameter\<close>
  "id_is n r = (Finite (of_int (id' r)) = n)"

definition select_by_id :: "jsnum \<Rightarrow> store \<Rightarrow> log_row list" where
  "select_by_id n db = filter (id_is n) (logs db)"

definition select_ordered :: "store \<Rightarrow> log_row list" where
  \<comment> \<open>\<open>ORDER BY time DESC\<close>\<close>
  "select_ordered db = sort_key (\<lambda>r. - time r) (logs db)"

definition insert_log :: "string \<Rightarrow> string \<Rightarrow> int \<Rightarrow> int \<Rightarrow> store \<Rightarrow> int \<times> store" where
  \<comment> \<open>\<open>INSERT INTO logs (pet_name, task, time, updated_at) VALUES (?, ?, ?, NOW())\<close>;
      returns \<open>insertId\<close>\<close>
  "insert_log p t tm now db =
     (auto_increment db,
      db\<lparr>logs := logs db @ [\<lparr>id' = auto_increment db, petName = p, task = t, time = tm,
                               createdAt = now, updatedAt = now\<rparr>],
         auto_increment := auto_increment db + 1\<rparr>)"

definition update_log :: "string \<Rightarrow> string \<Rightarrow> int \<Rightarrow> int \<Rightarrow> jsnum \<Rightarrow> store \<Rightarrow> store" where
  \<comment> \<open>\<open>UPDATE logs SET pet_name = ?, task = ?, time = ?, updated_at = NOW() WHERE id = ?\<close>\<close>
  "update_log p t tm now n db =
     db\<lparr>logs := map (\<lambda>r. if id_is n r
                           then r\<lparr>petName := p, task := t, time := tm, updatedAt := now\<rparr>
                           else r) (logs db)\<rparr>"

definition update_log_unstamped :: "string \<Rightarrow> string \<Rightarrow> int \<Rightarrow> jsnum \<Rightarrow> store \<Rightarrow> store" where
  \<comment> \<open>\<open>UPDATE logs SET pet_name = ?, task = ?, time = ? WHERE id = ?\<close>\<close>
  "update_log_unstamped p t tm n db =
     db\<lparr>logs := map (\<lambda>r. if id_is n r then r\<lparr>petName := p, task := t, time := tm\<rparr> else r)
                   (logs db)\<rparr>"

definition delete_log :: "jsnum \<Rightarrow> store \<Rightarrow> nat \<times> store" where
  \<comment> \<open>\<open>DELETE FROM logs WHERE id = ?\<close>; returns \<open>affectedRows\<close>\<close>
  "delete_log n db =
     (length (filter (id_is n) (logs db)),
      db\<lparr>logs := filter (\<lambda>r. \<not> id_is n r) (logs db)\<rparr>)"

definition wf_store :: "store \<Rightarrow> bool" where
  \<comment> \<open>what the primary key and the counter guarantee\<close>
  "wf_store db =
     (0 < auto_increment db \<and> distinct (map id' (logs db))
      \<and> list_all (\<lambda>r. 0 < id' r \<and> id' r < auto_increment db) (logs db))"

section \<open>Sessions\<close>

record session_user =
  uid :: "string option"
  role :: "string option"

record session =
  user :: "session_user option"

definition not_admin :: "session option \<Rightarrow> bool" where
  \<comment> \<open>\<open>!session || session.user?.role !== "admin"\<close>\<close>
  "not_admin s =
     (case s of
        None \<Rightarrow> True
      | Some ss \<Rightarrow> (case user ss of None \<Rightarrow> True | Some u \<Rightarrow> role u \<noteq> Some ''admin''))"

section \<open>Route handlers\<close>

datatype payload = Message string | LogJson log_row | LogsJson "log_row list" | Success bool

record response =
  status :: nat
  payload :: payload

definition json_response :: "payload \<Rightarrow> nat \<Rightarrow> response" where
  "json_response p st = \<lparr>status = st, payload = p\<rparr>"

subsection \<open>src/app/api/logs/route.ts\<close>

definition GET :: "env \<Rightarrow> session option \<Rightarrow> store \<Rightarrow> response \<times> store" where
  "GET e sess db =
     (case sess of
        None \<Rightarrow> (json_response (Message ''Unauthorized'') 401, db)
      | Some s \<Rightarrow>
          (case getPool e of
             Inl err \<Rightarrow> (json_response (Message ''Failed to fetch logs'') 500, db)
           | Inr pool \<Rightarrow> (json_response (LogsJson (select_ordered db)) 200, db)))"

text \<open>
  A handler takes the host's \<open>Date\<close>, the instant \<open>NOW()\<close> of its statement, the
  environment, the session \<open>auth()\<close> resolves to (\<open>None\<close> for none), the parsed body
  (\<open>None\<close> when the request text is not JSON and \<open>request.json()\<close> rejects) and the table;
  it returns the response and the table. Everything thrown inside \<open>try\<close> ends in the
  handler's 500 response; in POST that includes \<open>NextResponse.json(rows[0])\<close> on an empty
  result, which throws on \<open>undefined\<close>.
\<close>

definition POST ::
  "date_ctor \<Rightarrow> int \<Rightarrow> env \<Rightarrow> session option \<Rightarrow> json option \<Rightarrow> store \<Rightarrow> response \<times> store" where
  "POST Date now e sess body db =
     (if not_admin sess
      then (json_response (Message ''Unauthorized - Admin access required'') 403, db)
      else (case body of
        None \<Rightarrow> (json_response (Message ''Failed to create log'') 500, db)
      | Some b \<Rightarrow>
      (case destructure b of
        Inl err \<Rightarrow> (json_response (Message ''Failed to create log'') 500, db)
      | Inr (petName', task', time') \<Rightarrow>
      (if \<not> truthy petName' \<or> \<not> truthy task' \<or> \<not> truthy time'
       then (json_response (Message ''petName, task, and time are required'') 400, db)
       else (case new_Date Date time' of
         None \<Rightarrow> (json_response (Message ''Invalid time format'') 400, db)
       | Some parsedDate \<Rightarrow>
       (case getPool e of
         Inl err \<Rightarrow> (json_response (Message ''Failed to create log'') 500, db)
       | Inr pool \<Rightarrow>
       (case call_trim petName' of
         Inl err \<Rightarrow> (json_response (Message ''Failed to create log'') 500, db)
       | Inr p \<Rightarrow>
       (case call_trim task' of
         Inl err \<Rightarrow> (json_response (Message ''Failed to create log'') 500, db)
       | Inr t \<Rightarrow>
       (case insert_log p t parsedDate now db of
         (insertId, db') \<Rightarrow>
       (case select_by_id (Finite (of_int insertId)) db' of
         [] \<Rightarrow> (json_response (Message ''Failed to create log'') 500, db')
       | row # rest \<Rightarrow> (json_response (LogJson row) 201, db')))))))))))"

subsection \<open>src/app/api/logs/[id]/route.ts\<close>

definition PUT ::
  "date_ctor \<Rightarrow> int \<Rightarrow> env \<Rightarrow> session option \<Rightarrow> json option \<Rightarrow> string \<Rightarrow> store
     \<Rightarrow> response \<times> store" where
  "PUT Date now e sess body idParam db =
     (if not_admin sess
      then (json_response (Message ''Unauthorized - Admin access required'') 403, db)
      else (case body of
        None \<Rightarrow> (json_response (Message ''Failed to update log'') 500, db)
      | Some b \<Rightarrow>
      (case destructure b of
        Inl err \<Rightarrow> (json_response (Message ''Failed to update log'') 500, db)
      | Inr (petName', task', time') \<Rightarrow>
      (let id = Number idParam in
      (if \<not> isInteger id
       then (json_response (Message ''Invalid id'') 400, db)
       else (if \<not> truthy petName' \<or> \<not> truthy task' \<or> \<not> truthy time'
       then (json_response (Message ''petName, task, and time are required'') 400, db)
       else (case new_Date Date time' of
         None \<Rightarrow> (json_response (Message ''Invalid time format'') 400, db)
       | Some parsedDate \<Rightarrow>
       (case getPool e of
         Inl err \<Rightarrow> (json_response (Message ''Failed to update log'') 500, db)
       | Inr pool \<Rightarrow>
       (case call_trim petName' of
         Inl err \<Rightarrow> (json_response (Message ''Failed to update log'') 500, db)
       | Inr p \<Rightarrow>
       (case call_trim task' of
         Inl err \<Rightarrow> (json_response (Message ''Failed to update log'') 500, db)
       | Inr t \<Rightarrow>
       (let db' = update_log p t parsedDate now id db in
       (case select_by_id id db' of
         [] \<Rightarrow> (json_response (Message ''Log not found'') 404, db')
       | row # rest \<Rightarrow> (json_response (LogJson row) 200, db')))))))))))))"

definition DELETE :: "env \<Rightarrow> session option \<Rightarrow> string \<Rightarrow> store \<Rightarrow> response \<times> store" where
  "DELETE e sess idParam db =
     (if not_admin sess
      then (json_response (Message ''Unauthorized - Admin access required'') 403, db)
      else (let id = Number idParam in
      (if \<not> isInteger id
       then (json_response (Message ''Invalid id'') 400, db)
       else (case getPool e of
         Inl err \<Rightarrow> (json_response (Message ''Failed to delete log'') 500, db)
       | Inr pool \<Rightarrow>
       (case delete_log id db of
         (affectedRows, db') \<Rightarrow>
       (if affectedRows = 0
        then (json_response (Message ''Log not found'') 404, db')
        else (json_response (Success True) 200, db')))))))"

subsection \<open>The earlier [id] route (src/unnamed/part_000)\<close>

text \<open>
  A second \<open>[id]/route.ts\<close> among the sources: it never calls \<open>auth()\<close>, and its
  UPDATE statement does not assign \<open>updated_at\<close>.
\<close>

definition PUT_part_000 ::
  "date_ctor \<Rightarrow> env \<Rightarrow> json option \<Rightarrow> string \<Rightarrow> store \<Rightarrow> response \<times> store" where
  "PUT_part_000 Date e body idParam db =
     (case body of
        None \<Rightarrow> (json_response (Message ''Failed to update log'') 500, db)
      | Some b \<Rightarrow>
      (case destructure b of
        Inl err \<Rightarrow> (json_response (Message ''Failed to update log'') 500, db)
      | Inr (petName', task', time') \<Rightarrow>
      (let id = Number idParam in
      (if \<not> isInteger id
       then (json_response (Message ''Invalid id'') 400, db)
       else (if \<not> truthy petName' \<or> \<not> truthy task' \<or> \<not> truthy time'
       then (json_response (Message ''petName, task, and time are required'') 400, db)
       else (case new_Date Date time' of
         None \<Rightarrow> (json_response (Message ''Invalid time format'') 400, db)
       | Some parsedDate \<Rightarrow>
       (case getPool e of
         Inl err \<Rightarrow> (json_response (Message ''Failed to update log'') 500, db)
       | Inr pool \<Rightarrow>
       (case call_trim petName' of
         Inl err \<Rightarrow> (json_response (Message ''Failed to update log'') 500, db)
       | Inr p \<Rightarrow>
       (case call_trim task' of
         Inl err \<Rightarrow> (json_response (Message ''Failed to update log'') 500, db)
       | Inr t \<Rightarrow>
       (let db' = update_log_unstamped p t parsedDate id db in
       (case select_by_id id db' of
         [] \<Rightarrow> (json_response (Message ''Log not found'') 404, db')
       | row # rest \<Rightarrow> (json_response (LogJson row) 200, db'))))))))))))"

definition DELETE_part_000 :: "env \<Rightarrow> string \<Rightarrow> store \<Rightarrow> response \<times> store" where
  "DELETE_part_000 e idParam db =
     (let id = Number idParam in
      (if \<not> isInteger id
       then (json_response (Message ''Invalid id'') 400, db)
       else (case getPool e of
         Inl err \<Rightarrow> (json_response (Message ''Failed to delete log'') 500, db)
       | Inr pool \<Rightarrow>
       (case delete_log id db of
         (affectedRows, db') \<Rightarrow>
       (if affectedRows = 0
        then (json_response (Message ''Log not found'') 404, db')
        else (json_response (Success True) 200, db'))))))"

section \<open>Authentication (src/unnamed/part_002, the NextAuth configuration)\<close>

definition ADMIN_EMAIL :: string where
  "ADMIN_EMAIL = ''admin@petcare.com''"

definition ADMIN_PASSWORD :: string where
  "ADMIN_PASSWORD = ''admin123''"

text \<open>
  The submitted credentials: a field is \<open>None\<close> when it is absent or not a string, in
  which case \<open>===\<close> against a string constant is false.
\<close>

record credentials =
  email :: "string option"
  password :: "string option"

text \<open>The user object a provider hands to the \<open>jwt\<close> callback; every field may be absent.\<close>

record auth_user =
  user_id :: "string option"
  user_email :: "string option"
  user_name :: "string option"
  user_role :: "string option"

definition authorize :: "credentials option \<Rightarrow> auth_user option" where
  "authorize creds =
     (case creds of
        None \<Rightarrow> None
      | Some c \<Rightarrow>
          if email c = Some ADMIN_EMAIL \<and> password c = Some ADMIN_PASSWORD
          then Some \<lparr>user_id = Some ''admin'', user_email = Some ADMIN_EMAIL,
                      user_name = Some ''Admin'', user_role = Some ''admin''\<rparr>
          else None)"

record token =
  token_role :: "string option"
  token_id :: "string option"

record account =
  provider :: string

definition jwt :: "token \<Rightarrow> auth_user option \<Rightarrow> account option \<Rightarrow> token" where
  \<comment> \<open>\<open>token.role = user.role || (account?.provider === "google" ? "user" : "admin")\<close>\<close>
  "jwt tok usr acct =
     (case usr of
        None \<Rightarrow> tok
      | Some u \<Rightarrow>
          tok\<lparr>token_role :=
                 (case user_role u of
                    Some r \<Rightarrow>
                      if r \<noteq> [] then Some r
                      else if map_option provider acct = Some ''google'' then Some ''user''
                      else Some ''admin''
                  | None \<Rightarrow>
                      if map_option provider acct = Some ''google'' then Some ''user''
                      else Some ''admin''),
               token_id := user_id u\<rparr>)"

definition session_callback :: "session \<Rightarrow> token \<Rightarrow> session" where
  "session_callback s tok =
     (case user s of
        None \<Rightarrow> s
      | Some u \<Rightarrow> s\<lparr>user := Some (u\<lparr>role := token_role tok, uid := token_id tok\<rparr>)\<rparr>)"

section \<open>Client page (src/app/page.tsx): merging a saved row into the list\<close>

text \<open>
  The updater \<open>handleSubmit\<close> passes to \<open>setLogs\<close>, the same in page.tsx and in the page of
  part_002. The client's \<open>Log\<close> has the fields of a row.
\<close>

definition setLogs_after_save :: "bool \<Rightarrow> log_row \<Rightarrow> log_row list \<Rightarrow> log_row list" where
  \<comment> \<open>\<open>isEditing ? prev.map((item) => (item.id === data.id ? data : item)) : [data, ...prev]\<close>\<close>
  "setLogs_after_save isEditing data prev =
     (if isEditing then map (\<lambda>item. if id' item = id' data then data else item) prev
      else data # prev)"

section \<open>A sample host and sample requests\<close>

text \<open>
  To run the handlers on concrete requests: a host whose \<open>Date\<close> understands the UTC form
  \<open>YYYY-MM-DDTHH:mm:ssZ\<close>, with or without \<open>.sss\<close>, and nothing else.
\<close>

definition days_from_civil :: "int \<Rightarrow> int \<Rightarrow> int \<Rightarrow> int" where
  "days_from_civil y m d =
     (let y1 = (if m \<le> 2 then y - 1 else y);
          era = y1 div 400;
          yoe = y1 - era * 400;
          mp = (m + 9) mod 12;
          doy = (153 * mp + 2) div 5 + d - 1;
          doe = yoe * 365 + yoe div 4 - yoe div 100 + doy
      in era * 146097 + doe - 719468)"

definition days_in_month :: "int \<Rightarrow> int \<Rightarrow> int" where
  "days_in_month y m =
     (if m = 2 then (if y mod 4 = 0 \<and> (y mod 100 \<noteq> 0 \<or> y mod 400 = 0) then 29 else 28)
      else if m = 4 \<or> m = 6 \<or> m = 9 \<or> m = 11 then 30 else 31)"

definition field :: "nat \<Rightarrow> nat \<Rightarrow> string \<Rightarrow> int option" where
  \<comment> \<open>the decimal number written in \<open>len\<close> characters from position \<open>pos\<close>\<close>
  "field pos len s =
     (if length s < pos + len then None else digits_value 10 0 (take len (drop pos s)))"

definition utc_Date :: date_ctor where
  "utc_Date v =
     (case v of
        JStr s \<Rightarrow>
          if \<not> (length s = 20 \<or> length s = 24) then None
          else if map (\<lambda>i. s ! i) [4, 7, 10, 13, 16] \<noteq> ''--T::'' \<or> last s \<noteq> CHR ''Z''
               \<or> (length s = 24 \<and> s ! 19 \<noteq> CHR ''.'')
          then None
          else (case (field 0 4 s, field 5 2 s, field 8 2 s, field 11 2 s, field 14 2 s,
                      field 17 2 s, if length s = 24 then field 20 3 s else Some 0) of
                  (Some y, Some m, Some d, Some h, Some mi, Some sec, Some msec) \<Rightarrow>
                    if 1 \<le> m \<and> m \<le> 12 \<and> 1 \<le> d \<and> d \<le> days_in_month y m
                       \<and> h \<le> 23 \<and> mi \<le> 59 \<and> sec \<le> 59
                    then Some ((((days_from_civil y m d * 24 + h) * 60 + mi) * 60 + sec) * 1000
                               + msec)
                    else None
                | _ \<Rightarrow> None)
      | _ \<Rightarrow> None)"

definition configured :: env where
  "configured = \<lparr>MYSQL_HOST = Some ''db.internal'', MYSQL_DATABASE = Some ''pet_care_log'',
                  MYSQL_USER = Some ''petlog''\<rparr>"

definition admin_session :: "session option" where
  "admin_session = Some \<lparr>user = Some \<lparr>uid = Some ''admin'', role = Some ''admin''\<rparr>\<rparr>"

definition viewer_session :: "session option" where
  "viewer_session = Some \<lparr>user = Some \<lparr>uid = Some ''1017'', role = Some ''user''\<rparr>\<rparr>"

definition milo :: json where
  "milo = JObj [(''petName'', JStr ''Milo''), (''task'', JStr ''Fed''),
                (''time'', JStr ''2024-01-01T08:00:00Z'')]"

definition yesterday :: json where
  "yesterday = JObj [(''petName'', JStr ''Milo''), (''task'', JStr ''Fed''),
                     (''time'', JStr ''yesterday'')]"

definition blank_name :: json where
  "blank_name = JObj [(''petName'', JStr ''   ''), (''task'', JStr ''Fed''),
                      (''time'', JStr ''2024-01-01T08:00:00Z'')]"

definition padded_milo :: json where
  "padded_milo = JObj [(''petName'', JStr ''  Milo ''), (''task'', JStr (CHR 0x09 # ''Fed '')),
                       (''time'', JStr ''2024-01-01T08:00:00Z'')]"

definition empty_store :: store where
  "empty_store = \<lparr>logs = [], auto_increment = 1\<rparr>"

definition one_log :: store where
  "one_log = \<lparr>logs = [\<lparr>id' = 1, petName = ''Milo'', task = ''Fed'', time = 1704096000000,
                         createdAt = 1704100000000, updatedAt = 1704100000000\<rparr>],
              auto_increment = 2\<rparr>"

section \<open>Facts about the table and the string helpers\<close>

lemma id_is_of_int [simp]: "id_is (Finite (of_int k)) r \<longleftrightarrow> id' r = k"
  by (simp add: id_is_def)

lemma id_is_update [simp]:
  "id_is n (r\<lparr>petName := p, task := t, time := tm, updatedAt := u\<rparr>) = id_is n r"
  "id_is n (r\<lparr>petName := p, task := t, time := tm\<rparr>) = id_is n r"
  by (simp_all add: id_is_def)

lemma select_fresh:
  assumes "wf_store db"
  shows "select_by_id (Finite (of_int (auto_increment db))) db = []"
  using assms
  by (auto simp: wf_store_def select_by_id_def filter_empty_conv list_all_iff)

lemma select_after_insert:
  assumes "wf_store db"
  shows "select_by_id (Finite (of_int (auto_increment db))) (snd (insert_log p t tm now db))
           = [\<lparr>id' = auto_increment db, petName = p, task = t, time = tm,
               createdAt = now, updatedAt = now\<rparr>]"
  using select_fresh [OF assms] by (simp add: select_by_id_def insert_log_def)

lemma wf_store_insert: "wf_store db \<Longrightarrow> wf_store (snd (insert_log p t tm now db))"
  by (auto simp: wf_store_def insert_log_def list_all_iff)

lemma select_after_update:
  "select_by_id n (update_log p t tm now n db)
     = map (\<lambda>r. r\<lparr>petName := p, task := t, time := tm, updatedAt := now\<rparr>) (select_by_id n db)"
  by (simp add: select_by_id_def update_log_def filter_map comp_def)

lemma update_absent:
  "select_by_id n db = [] \<Longrightarrow> update_log p t tm now n db = db"
proof -
  assume "select_by_id n db = []"
  then have "\<forall>r\<in>set (logs db). \<not> id_is n r"
    by (simp add: select_by_id_def filter_empty_conv)
  then have "map (\<lambda>r. if id_is n r
                        then r\<lparr>petName := p, task := t, time := tm, updatedAt := now\<rparr>
                        else r) (logs db) = logs db"
    by (simp add: map_idI)
  then show ?thesis by (simp add: update_log_def)
qed

lemma delete_absent:
  "select_by_id n db = [] \<Longrightarrow> delete_log n db = (0, db)"
  by (simp add: select_by_id_def delete_log_def filter_empty_conv)

lemma select_after_delete: "select_by_id n (snd (delete_log n db)) = []"
  by (simp add: select_by_id_def delete_log_def filter_empty_conv)

lemma trim_whitespace: "list_all StrWhiteSpaceChar s \<Longrightarrow> trim s = []"
proof -
  assume "list_all StrWhiteSpaceChar s"
  then have "dropWhile StrWhiteSpaceChar s = []"
    by (simp add: list_all_iff)
  then show ?thesis by (simp add: trim_def del: dropWhile_eq_Nil_conv)
qed

text \<open>
  What \<open>trim\<close> returns is the string without its white space at either end: the input is
  the result between two runs of white space, and a non-empty result neither starts nor ends
  with white space.
\<close>

lemma trim_padding:
  "\<exists>l r. s = l @ trim s @ r \<and> list_all StrWhiteSpaceChar l \<and> list_all StrWhiteSpaceChar r"
proof -
  let ?P = StrWhiteSpaceChar
  let ?m = "dropWhile ?P s"
  have s: "s = takeWhile ?P s @ ?m" by simp
  have m: "?m = trim s @ rev (takeWhile ?P (rev ?m))"
    unfolding trim_def by (metis rev_append rev_rev_ident takeWhile_dropWhile_id)
  have l: "list_all ?P (takeWhile ?P s)"
    by (simp add: list_all_iff) (meson set_takeWhileD)
  have r: "list_all ?P (rev (takeWhile ?P (rev ?m)))"
    by (simp add: list_all_iff) (meson set_takeWhileD)
  have "s = takeWhile ?P s @ trim s @ rev (takeWhile ?P (rev ?m))"
    using s m by simp
  then show ?thesis using l r by blast
qed

lemma trim_ends:
  assumes "trim s \<noteq> []"
  shows "\<not> StrWhiteSpaceChar (hd (trim s)) \<and> \<not> StrWhiteSpaceChar (last (trim s))"
proof -
  let ?P = StrWhiteSpaceChar
  let ?m = "dropWhile ?P s"
  have ne: "dropWhile ?P (rev ?m) \<noteq> []"
    using assms by (simp add: trim_def)
  have "last (trim s) = hd (dropWhile ?P (rev ?m))"
    using ne by (simp add: trim_def last_rev)
  then have last: "\<not> ?P (last (trim s))"
    using ne hd_dropWhile [of ?P "rev ?m"] by simp
  have mne: "?m \<noteq> []"
    using ne by (metis dropWhile.simps(1) rev.simps(1))
  then have hm: "\<not> ?P (hd ?m)"
    using hd_dropWhile [of ?P s] by simp
  obtain r where "?m = trim s @ r"
  proof -
    have "?m = trim s @ rev (takeWhile ?P (rev ?m))"
      unfolding trim_def by (metis rev_append rev_rev_ident takeWhile_dropWhile_id)
    then show ?thesis using that by blast
  qed
  then have "hd ?m = hd (trim s)"
    using assms by (metis hd_append2)
  then show ?thesis using hm last by simp
qed

lemma select_ordered_all: "mset (select_ordered db) = mset (logs db)"
  by (simp add: select_ordered_def)

lemma select_ordered_desc: "sorted_wrt (\<lambda>a b. time b \<le> time a) (select_ordered db)"
proof -
  have "sorted (map (\<lambda>r. - time r) (select_ordered db))"
    by (simp add: select_ordered_def)
  then show ?thesis by (simp add: sorted_map)
qed

lemma destructure_not_null:
  "b \<noteq> JNull \<Longrightarrow> \<exists>pn tk tm. destructure b = Inr (pn, tk, tm)"
  by (cases b) (simp_all add: destructure_def)

lemma admin_has_session: "\<not> not_admin sess \<Longrightarrow> \<exists>s. sess = Some s"
  by (cases sess) (simp_all add: not_admin_def)

subsection \<open>The sample requests\<close>

lemma admin_session_is_admin: "\<not> not_admin admin_session"
  by (simp add: not_admin_def admin_session_def)

lemma getPool_configured: "getPool configured = Inr ()"
  by (simp add: getPool_def configured_def)

lemma wf_one_log: "wf_store one_log"
  by (simp add: wf_store_def one_log_def)

lemma destructure_milo:
  "destructure milo
     = Inr (Some (JStr ''Milo''), Some (JStr ''Fed''), Some (JStr ''2024-01-01T08:00:00Z''))"
  by (simp add: milo_def destructure_def)

lemma utc_Date_milo: "utc_Date (JStr ''2024-01-01T08:00:00Z'') = Some 1704096000000"
  by code_simp

lemma trim_Milo: "trim ''Milo'' = ''Milo''" "trim ''Fed'' = ''Fed''"
  by (simp_all add: trim_def StrWhiteSpaceChar_def)

lemma destructure_padded_milo:
  "destructure padded_milo
     = Inr (Some (JStr ''  Milo ''), Some (JStr (CHR 0x09 # ''Fed '')),
            Some (JStr ''2024-01-01T08:00:00Z''))"
  by (simp add: padded_milo_def destructure_def)

lemma trim_padded: "trim ''  Milo '' = ''Milo''" "trim (CHR 0x09 # ''Fed '') = ''Fed''"
  by (simp_all add: trim_def StrWhiteSpaceChar_def)

lemma Number_7: "Number ''7'' = Finite 7"
  by code_simp

lemma Number_1: "Number ''1'' = Finite 1"
  by code_simp

section \<open>The key invariant is kept by every handler\<close>

lemma wf_store_ids:
  "wf_store d \<longleftrightarrow> 0 < auto_increment d \<and> distinct (map id' (logs d))
     \<and> list_all (\<lambda>i. 0 < i \<and> i < auto_increment d) (map id' (logs d))"
  by (simp add: wf_store_def list.pred_map comp_def)

lemma wf_store_update: "wf_store db \<Longrightarrow> wf_store (update_log p t tm now n db)"
proof -
  have ids: "map id' (logs (update_log p t tm now n db)) = map id' (logs db)"
    by (simp add: update_log_def comp_def if_distrib cong: if_cong)
  have counter: "auto_increment (update_log p t tm now n db) = auto_increment db"
    by (simp add: update_log_def)
  show "wf_store db \<Longrightarrow> wf_store (update_log p t tm now n db)"
    by (simp only: wf_store_ids ids counter)
qed

lemma wf_store_delete: "wf_store db \<Longrightarrow> wf_store (snd (delete_log n db))"
  by (auto simp: wf_store_def delete_log_def list_all_iff distinct_map_filter)

lemma wf_empty_store: "wf_store empty_store"
  by (simp add: wf_store_def empty_store_def)

lemma wf_store_inserted:
  "wf_store db \<Longrightarrow> insert_log p t tm now db = (i, db') \<Longrightarrow> wf_store db'"
  using wf_store_insert [of db p t tm now] by simp

lemma POST_keeps_wf: "wf_store db \<Longrightarrow> wf_store (snd (POST Date now e sess body db))"
  by (auto simp: POST_def split: option.split sum.split prod.split list.split
           dest: wf_store_inserted)

lemma PUT_keeps_wf: "wf_store db \<Longrightarrow> wf_store (snd (PUT Date now e sess body idParam db))"
  by (simp add: PUT_def Let_def wf_store_update split: option.split sum.split prod.split list.split)

lemma DELETE_keeps_wf: "wf_store db \<Longrightarrow> wf_store (snd (DELETE e sess idParam db))"
  using wf_store_delete [of db "Number idParam"]
  by (auto simp: DELETE_def Let_def split: sum.split prod.split)

section \<open>The role check\<close>

text \<open>
  The handlers of \<open>route.ts\<close> and \<open>[id]/route.ts\<close> answer 403 to every session that is
  not an admin's, whatever the body, the id and the environment, and leave the table alone.
\<close>

lemma POST_not_admin:
  "not_admin sess \<Longrightarrow>
   POST Date now e sess body db =
     (json_response (Message ''Unauthorized - Admin access required'') 403, db)"
  by (simp add: POST_def)

lemma PUT_not_admin:
  "not_admin sess \<Longrightarrow>
   PUT Date now e sess body idParam db =
     (json_response (Message ''Unauthorized - Admin access required'') 403, db)"
  by (simp add: PUT_def)

lemma DELETE_not_admin:
  "not_admin sess \<Longrightarrow>
   DELETE e sess idParam db =
     (json_response (Message ''Unauthorized - Admin access required'') 403, db)"
  by (simp add: DELETE_def)

lemma not_admin_iff:
  "not_admin sess \<longleftrightarrow> (\<forall>s u. sess = Some s \<longrightarrow> user s = Some u \<longrightarrow> role u \<noteq> Some ''admin'')"
  by (auto simp: not_admin_def split: option.splits)

text \<open>
  C1. Every session without the admin role gets 403 from create, update and delete, and
  the store stays as it was. The [id] route of part_000 does not ask for the session at
  all: its DELETE removes row 1 for any caller, where the DELETE of \<open>[id]/route.ts\<close>
  answers a viewer with 403.
\<close>

theorem part_000_DELETE_without_role_check:
  "DELETE_part_000 configured ''1'' one_log
     = (json_response (Success True) 200, \<lparr>logs = [], auto_increment = 2\<rparr>)
   \<and> DELETE configured viewer_session ''1'' one_log
     = (json_response (Message ''Unauthorized - Admin access required'') 403, one_log)"
  by code_simp

section \<open>The update timestamp\<close>

text \<open>A successful PUT of \<open>[id]/route.ts\<close> returns the first matching row, rewritten and stamped.\<close>

lemma PUT_present:
  assumes "\<not> not_admin sess" and "getPool e = Inr ()" and "isInteger (Number idParam)"
    and "select_by_id (Number idParam) db = r # rs"
    and "destructure b = Inr (Some (JStr p), Some (JStr t), Some tv)"
    and "p \<noteq> []" "t \<noteq> []" "truthy (Some tv)" and "Date tv = Some instant"
  shows "PUT Date now e sess (Some b) idParam db
           = (json_response
                (LogJson (r\<lparr>petName := trim p, task := trim t, time := instant,
                            updatedAt := now\<rparr>)) 200,
              update_log (trim p) (trim t) instant now (Number idParam) db)"
  using assms by (simp add: PUT_def select_after_update)

lemma PUT_stamps_updatedAt:
  assumes "\<not> not_admin sess" and "getPool e = Inr ()" and "isInteger (Number idParam)"
    and "select_by_id (Number idParam) db = r # rs"
    and "destructure b = Inr (Some (JStr p), Some (JStr t), Some tv)"
    and "p \<noteq> []" "t \<noteq> []" "truthy (Some tv)" and "Date tv = Some instant"
  shows "list_all (\<lambda>row. updatedAt row = now)
           (select_by_id (Number idParam) (snd (PUT Date now e sess (Some b) idParam db)))"
  using PUT_present [where Date = Date and now = now, OF assms]
  by (simp add: select_after_update list_all_iff)

text \<open>The PUT of part_000 never writes the column, whatever the request.\<close>

lemma update_log_unstamped_updatedAt:
  "map updatedAt (logs (update_log_unstamped p t tm n db)) = map updatedAt (logs db)"
  by (simp add: update_log_unstamped_def comp_def if_distrib cong: if_cong)

lemma PUT_part_000_never_stamps:
  "map updatedAt (logs (snd (PUT_part_000 Date e body idParam db))) = map updatedAt (logs db)"
  by (simp add: PUT_part_000_def Let_def update_log_unstamped_updatedAt
           split: option.split sum.split prod.split list.split)

text \<open>
  C2. Every successful update refreshes the row's \<open>updatedAt\<close>. The PUT of part_000
  answers 200 with the row changed and \<open>updatedAt\<close> still at its insertion value.
\<close>

theorem part_000_PUT_keeps_updatedAt:
  "PUT_part_000 utc_Date configured
       (Some (JObj [(''petName'', JStr ''Milo''), (''task'', JStr ''Walked''),
                    (''time'', JStr ''2024-01-02T09:30:00Z'')])) ''1'' one_log
     = (json_response
          (LogJson \<lparr>id' = 1, petName = ''Milo'', task = ''Walked'', time = 1704187800000,
                     createdAt = 1704100000000, updatedAt = 1704100000000\<rparr>) 200,
        \<lparr>logs = [\<lparr>id' = 1, petName = ''Milo'', task = ''Walked'', time = 1704187800000,
                   createdAt = 1704100000000, updatedAt = 1704100000000\<rparr>],
           auto_increment = 2\<rparr>)"
  by code_simp

theorem part_000_PUT_keeps_updatedAt_witness:
  "map updatedAt (logs (snd (PUT_part_000 utc_Date configured
       (Some (JObj [(''petName'', JStr ''Milo''), (''task'', JStr ''Walked''),
                    (''time'', JStr ''2024-01-02T09:30:00Z'')])) ''1'' one_log)))
     = map updatedAt (logs one_log)"
  using part_000_PUT_keeps_updatedAt by (simp add: one_log_def)

section \<open>Validation of the id\<close>

text \<open>
  C3, as stated: an id that is not a well-formed positive integer is rejected with 400
  before the store is touched. It fails at \<open>-5\<close> and at \<open>0\<close>: both convert to an integer,
  pass the check, reach the table and come back as 404.
\<close>

theorem id_check_admits_nonpositive:
  "\<not> well_formed_positive_integer ''-5''
   \<and> DELETE configured admin_session ''-5'' one_log
       = (json_response (Message ''Log not found'') 404, one_log)
   \<and> PUT utc_Date 1704200000000 configured admin_session (Some milo) ''-5'' one_log
       = (json_response (Message ''Log not found'') 404, one_log)
   \<and> \<not> well_formed_positive_integer ''0''
   \<and> DELETE configured admin_session ''0'' one_log
       = (json_response (Message ''Log not found'') 404, one_log)"
  by code_simp

text \<open>
  C3, amended: for an admin, an id whose conversion by \<open>Number\<close> is not an integer (NaN,
  an infinity or a fraction) is rejected with 400 ``Invalid id'' by delete, and by update
  whenever the body is JSON other than \<open>null\<close>; the table is unchanged and the pool is
  never asked for, so the answer is the same in every environment.
\<close>

theorem non_integer_id_rejected:
  assumes "\<not> not_admin sess" and "\<not> isInteger (Number idParam)"
  shows "DELETE e sess idParam db = (json_response (Message ''Invalid id'') 400, db)
       \<and> (b \<noteq> JNull \<longrightarrow>
            PUT Date now e sess (Some b) idParam db
              = (json_response (Message ''Invalid id'') 400, db))"
proof (intro conjI impI)
  show "DELETE e sess idParam db = (json_response (Message ''Invalid id'') 400, db)"
    using assms by (simp add: DELETE_def)
next
  assume "b \<noteq> JNull"
  then obtain pn tk tm where "destructure b = Inr (pn, tk, tm)"
    using destructure_not_null by blast
  then show "PUT Date now e sess (Some b) idParam db
              = (json_response (Message ''Invalid id'') 400, db)"
    using assms by (simp add: PUT_def)
qed

theorem non_integer_id_rejected_witness:
  "DELETE \<lparr>MYSQL_HOST = None, MYSQL_DATABASE = None, MYSQL_USER = None\<rparr>
      admin_session ''abc'' one_log
     = (json_response (Message ''Invalid id'') 400, one_log)
   \<and> PUT utc_Date 1704200000000 configured admin_session (Some milo) ''1.5'' one_log
     = (json_response (Message ''Invalid id'') 400, one_log)"
proof -
  have a: "\<not> not_admin admin_session"
    by (simp add: not_admin_def admin_session_def)
  have n1: "\<not> isInteger (Number ''abc'')" by code_simp
  have n2: "\<not> isInteger (Number ''1.5'')" by code_simp
  have m: "milo \<noteq> JNull" by (simp add: milo_def)
  show ?thesis
    using non_integer_id_rejected
            [OF a n1, of "\<lparr>MYSQL_HOST = None, MYSQL_DATABASE = None, MYSQL_USER = None\<rparr>" one_log]
          non_integer_id_rejected [OF a n2, of configured one_log milo utc_Date 1704200000000] m
    by simp
qed

section \<open>Create\<close>

text \<open>
  C4. For an admin and a payload whose \<open>petName\<close> and \<open>task\<close> are non-empty strings and
  whose \<open>time\<close> the host's \<open>Date\<close> parses, create answers with status 201 and, as its
  payload, the new row: a fresh id (the table's counter), the two strings trimmed (each
  submitted string is the stored one between two runs of white space, and the stored one
  has no white space at either end), the parsed instant, and both \<open>createdAt\<close> and
  \<open>updatedAt\<close> stamped. The row is appended to the table, and the list that follows
  answers 200 with the old rows and exactly this one more.
\<close>

theorem POST_creates_log:
  assumes admin: "\<not> not_admin sess" and pool: "getPool e = Inr ()" and wf: "wf_store db"
    and flds: "destructure b = Inr (Some (JStr p), Some (JStr t), Some tv)"
    and present: "p \<noteq> []" "t \<noteq> []" "truthy (Some tv)"
    and parsed: "Date tv = Some instant"
  shows "let row = \<lparr>id' = auto_increment db, petName = trim p, task = trim t, time = instant,
                    createdAt = now, updatedAt = now\<rparr>;
             db' = db\<lparr>logs := logs db @ [row], auto_increment := auto_increment db + 1\<rparr>
         in status (fst (POST Date now e sess (Some b) db)) = 201
          \<and> payload (fst (POST Date now e sess (Some b) db)) = LogJson row
          \<and> snd (POST Date now e sess (Some b) db) = db'
          \<and> (\<exists>l r. p = l @ petName row @ r
                   \<and> list_all StrWhiteSpaceChar l \<and> list_all StrWhiteSpaceChar r)
          \<and> (petName row \<noteq> [] \<longrightarrow>
                \<not> StrWhiteSpaceChar (hd (petName row))
              \<and> \<not> StrWhiteSpaceChar (last (petName row)))
          \<and> (\<exists>l r. t = l @ task row @ r
                   \<and> list_all StrWhiteSpaceChar l \<and> list_all StrWhiteSpaceChar r)
          \<and> (task row \<noteq> [] \<longrightarrow>
                \<not> StrWhiteSpaceChar (hd (task row)) \<and> \<not> StrWhiteSpaceChar (last (task row)))
          \<and> id' row \<notin> id' ` set (logs db)
          \<and> status (fst (GET e sess db')) = 200
          \<and> payload (fst (GET e sess db')) = LogsJson (select_ordered db')
          \<and> snd (GET e sess db') = db'
          \<and> mset (select_ordered db') = add_mset row (mset (logs db))"
proof -
  let ?row = "\<lparr>id' = auto_increment db, petName = trim p, task = trim t, time = instant,
               createdAt = now, updatedAt = now\<rparr>"
  let ?db' = "db\<lparr>logs := logs db @ [?row], auto_increment := auto_increment db + 1\<rparr>"
  have ins: "insert_log (trim p) (trim t) instant now db = (auto_increment db, ?db')"
    by (simp add: insert_log_def)
  have sel: "select_by_id (Finite (of_int (auto_increment db))) ?db' = [?row]"
    using select_after_insert [OF wf, of "trim p" "trim t" instant now] by (simp add: ins)
  have post: "POST Date now e sess (Some b) db = (json_response (LogJson ?row) 201, ?db')"
    using admin pool flds present parsed sel by (simp add: POST_def ins)
  have answer: "status (fst (POST Date now e sess (Some b) db)) = 201"
    "payload (fst (POST Date now e sess (Some b) db)) = LogJson ?row"
    "snd (POST Date now e sess (Some b) db) = ?db'"
    by (simp_all add: post json_response_def)
  have name: "\<exists>l r. p = l @ petName ?row @ r
                \<and> list_all StrWhiteSpaceChar l \<and> list_all StrWhiteSpaceChar r"
    using trim_padding [of p] by simp
  have name_ends: "petName ?row \<noteq> [] \<longrightarrow>
      \<not> StrWhiteSpaceChar (hd (petName ?row)) \<and> \<not> StrWhiteSpaceChar (last (petName ?row))"
    using trim_ends [of p] by simp
  have job: "\<exists>l r. t = l @ task ?row @ r
                \<and> list_all StrWhiteSpaceChar l \<and> list_all StrWhiteSpaceChar r"
    using trim_padding [of t] by simp
  have job_ends: "task ?row \<noteq> [] \<longrightarrow>
      \<not> StrWhiteSpaceChar (hd (task ?row)) \<and> \<not> StrWhiteSpaceChar (last (task ?row))"
    using trim_ends [of t] by simp
  have fresh: "id' ?row \<notin> id' ` set (logs db)"
    using wf by (auto simp: wf_store_def list_all_iff)
  obtain s where s: "sess = Some s"
    using admin_has_session [OF admin] by blast
  have get: "GET e sess ?db' = (json_response (LogsJson (select_ordered ?db')) 200, ?db')"
    using pool s by (simp add: GET_def)
  have listed: "status (fst (GET e sess ?db')) = 200"
    "payload (fst (GET e sess ?db')) = LogsJson (select_ordered ?db')"
    "snd (GET e sess ?db') = ?db'"
    by (simp_all add: get json_response_def)
  have all: "mset (select_ordered ?db') = add_mset ?row (mset (logs db))"
    by (simp add: select_ordered_all)
  show ?thesis
    unfolding Let_def
    using answer name name_ends job job_ends fresh listed all by (intro conjI)
qed

theorem POST_creates_log_witness:
  "status (fst (POST utc_Date 1704200000000 configured admin_session (Some padded_milo) one_log))
     = 201
   \<and> payload (fst (POST utc_Date 1704200000000 configured admin_session (Some padded_milo)
                     one_log))
     = LogJson \<lparr>id' = 2, petName = ''Milo'', task = ''Fed'', time = 1704096000000,
                 createdAt = 1704200000000, updatedAt = 1704200000000\<rparr>
   \<and> snd (POST utc_Date 1704200000000 configured admin_session (Some padded_milo) one_log)
     = \<lparr>logs = [\<lparr>id' = 1, petName = ''Milo'', task = ''Fed'', time = 1704096000000,
                   createdAt = 1704100000000, updatedAt = 1704100000000\<rparr>,
                 \<lparr>id' = 2, petName = ''Milo'', task = ''Fed'', time = 1704096000000,
                   createdAt = 1704200000000, updatedAt = 1704200000000\<rparr>],
         auto_increment = 3\<rparr>
   \<and> payload (fst (GET configured admin_session
                     (snd (POST utc_Date 1704200000000 configured admin_session
                             (Some padded_milo) one_log))))
     = LogsJson [\<lparr>id' = 1, petName = ''Milo'', task = ''Fed'', time = 1704096000000,
                   createdAt = 1704100000000, updatedAt = 1704100000000\<rparr>,
                 \<lparr>id' = 2, petName = ''Milo'', task = ''Fed'', time = 1704096000000,
                   createdAt = 1704200000000, updatedAt = 1704200000000\<rparr>]"
  using POST_creates_log
          [where Date = utc_Date and now = 1704200000000, OF admin_session_is_admin
             getPool_configured wf_one_log destructure_padded_milo _ _ _ utc_Date_milo]
  by (simp add: Let_def trim_padded one_log_def select_ordered_def)

section \<open>Validation of the time\<close>

text \<open>
  C5. For an admin's request whose \<open>time\<close> is a string that the host's \<open>Date\<close> does not
  parse to an instant, create and update answer 400 and the table is unchanged (for other
  sessions the role check answers first, see above).
\<close>

theorem malformed_time_rejected:
  assumes "\<not> not_admin sess"
    and "destructure b = Inr (pn, tk, Some (JStr ts))"
    and "Date (JStr ts) = None"
  shows "status (fst (POST Date now e sess (Some b) db)) = 400
       \<and> snd (POST Date now e sess (Some b) db) = db
       \<and> status (fst (PUT Date now e sess (Some b) idParam db)) = 400
       \<and> snd (PUT Date now e sess (Some b) idParam db) = db"
  using assms by (simp add: POST_def PUT_def json_response_def Let_def)

theorem malformed_time_rejected_witness:
  "status (fst (POST utc_Date 1704200000000 configured admin_session (Some yesterday) one_log)) = 400
   \<and> snd (POST utc_Date 1704200000000 configured admin_session (Some yesterday) one_log) = one_log
   \<and> status (fst (PUT utc_Date 1704200000000 configured admin_session (Some yesterday) ''1'' one_log)) = 400
   \<and> snd (PUT utc_Date 1704200000000 configured admin_session (Some yesterday) ''1'' one_log) = one_log"
proof -
  have a: "\<not> not_admin admin_session"
    by (simp add: not_admin_def admin_session_def)
  have d: "destructure yesterday
             = Inr (Some (JStr ''Milo''), Some (JStr ''Fed''), Some (JStr ''yesterday''))"
    by (simp add: yesterday_def destructure_def)
  have p: "utc_Date (JStr ''yesterday'') = None"
    by (simp add: utc_Date_def)
  show ?thesis
    using malformed_time_rejected
            [where Date = utc_Date and sess = admin_session and b = yesterday
               and ts = "''yesterday''" and now = 1704200000000 and e = configured
               and db = one_log and idParam = "''1''", OF a d p]
    by simp
qed

section \<open>Ids that match no row\<close>

lemma DELETE_absent:
  assumes "\<not> not_admin sess" and "getPool e = Inr ()" and "isInteger (Number idParam)"
    and "select_by_id (Number idParam) db = []"
  shows "DELETE e sess idParam db = (json_response (Message ''Log not found'') 404, db)"
  using assms by (simp add: DELETE_def delete_absent)

lemma PUT_absent:
  assumes "\<not> not_admin sess" and "getPool e = Inr ()" and "isInteger (Number idParam)"
    and "select_by_id (Number idParam) db = []"
    and "destructure b = Inr (Some (JStr p), Some (JStr t), Some tv)"
    and "p \<noteq> []" "t \<noteq> []" "truthy (Some tv)" and "Date tv = Some instant"
  shows "PUT Date now e sess (Some b) idParam db
           = (json_response (Message ''Log not found'') 404, db)"
  using assms by (simp add: PUT_def update_absent)

text \<open>
  C6. For an admin, a configured pool, an id that converts to an integer and a valid body:
  when no row has the id, delete and update answer 404 and the table is unchanged; and
  whatever a first delete did, the table it leaves holds no such row, so every later
  delete (and update) of that id answers 404 again and changes nothing. Every path ends in
  a response.
\<close>

theorem absent_id_not_found:
  assumes admin: "\<not> not_admin sess" and pool: "getPool e = Inr ()"
    and int: "isInteger (Number idParam)"
    and valid: "destructure b = Inr (Some (JStr p), Some (JStr t), Some tv)"
               "p \<noteq> []" "t \<noteq> []" "truthy (Some tv)" "Date tv = Some instant"
  shows "(list_all (\<lambda>r. \<not> id_is (Number idParam) r) (logs db) \<longrightarrow>
            DELETE e sess idParam db = (json_response (Message ''Log not found'') 404, db)
          \<and> PUT Date now e sess (Some b) idParam db
              = (json_response (Message ''Log not found'') 404, db))
       \<and> (let db1 = snd (DELETE e sess idParam db)
          in DELETE e sess idParam db1 = (json_response (Message ''Log not found'') 404, db1)
           \<and> PUT Date now e sess (Some b) idParam db1
               = (json_response (Message ''Log not found'') 404, db1))"
proof -
  have first: "select_by_id (Number idParam) db = []"
    if "list_all (\<lambda>r. \<not> id_is (Number idParam) r) (logs db)"
    using that by (simp add: select_by_id_def filter_empty_conv list_all_iff)
  have del: "snd (DELETE e sess idParam db) = snd (delete_log (Number idParam) db)"
    using admin pool int by (simp add: DELETE_def split: prod.split)
  have gone: "select_by_id (Number idParam) (snd (DELETE e sess idParam db)) = []"
    by (simp only: del select_after_delete)
  show ?thesis
    using first gone DELETE_absent [OF admin pool int]
      PUT_absent [where Date = Date and now = now, OF admin pool int _ valid]
    by (simp add: Let_def)
qed

theorem absent_id_not_found_witness:
  "DELETE configured admin_session ''7'' one_log
     = (json_response (Message ''Log not found'') 404, one_log)
   \<and> PUT utc_Date 1704200000000 configured admin_session (Some milo) ''7'' one_log
     = (json_response (Message ''Log not found'') 404, one_log)
   \<and> DELETE configured admin_session ''1'' (snd (DELETE configured admin_session ''1'' one_log))
     = (json_response (Message ''Log not found'') 404,
        snd (DELETE configured admin_session ''1'' one_log))"
proof -
  have i7: "isInteger (Number ''7'')" by (simp add: Number_7)
  have i1: "isInteger (Number ''1'')" by (simp add: Number_1)
  have absent: "list_all (\<lambda>r. \<not> id_is (Number ''7'') r) (logs one_log)"
    by (simp add: Number_7 one_log_def id_is_def)
  show ?thesis
    using absent_id_not_found
            [where Date = utc_Date and now = 1704200000000 and db = one_log,
             OF admin_session_is_admin getPool_configured i7 destructure_milo _ _ _ utc_Date_milo]
          absent_id_not_found
            [where Date = utc_Date and now = 1704200000000 and db = one_log,
             OF admin_session_is_admin getPool_configured i1 destructure_milo _ _ _ utc_Date_milo]
          absent
    by (simp add: Let_def)
qed

section \<open>List\<close>

text \<open>
  C7. Without a session the list answers with status 401. With any session, whatever its
  role, and a configured pool it answers with status 200 and, as its payload, every row of
  the table, newest \<open>time\<close> first; the table is unchanged.
\<close>

theorem GET_lists_all_newest_first:
  "status (fst (GET e None db)) = 401
   \<and> payload (fst (GET e None db)) = Message ''Unauthorized''
   \<and> snd (GET e None db) = db
   \<and> (getPool e = Inr () \<longrightarrow>
        status (fst (GET e (Some s) db)) = 200
      \<and> payload (fst (GET e (Some s) db)) = LogsJson (select_ordered db)
      \<and> snd (GET e (Some s) db) = db
      \<and> mset (select_ordered db) = mset (logs db)
      \<and> sorted_wrt (\<lambda>a b. time b \<le> time a) (select_ordered db))"
  by (simp add: GET_def json_response_def select_ordered_all select_ordered_desc)

theorem GET_lists_all_newest_first_witness:
  "status (fst (GET configured viewer_session
       \<lparr>logs = [\<lparr>id' = 1, petName = ''Milo'', task = ''Fed'', time = 100,
                  createdAt = 100, updatedAt = 100\<rparr>,
                \<lparr>id' = 2, petName = ''Rex'', task = ''Walked'', time = 300,
                  createdAt = 300, updatedAt = 300\<rparr>],
         auto_increment = 3\<rparr>)) = 200
   \<and> payload (fst (GET configured viewer_session
       \<lparr>logs = [\<lparr>id' = 1, petName = ''Milo'', task = ''Fed'', time = 100,
                  createdAt = 100, updatedAt = 100\<rparr>,
                \<lparr>id' = 2, petName = ''Rex'', task = ''Walked'', time = 300,
                  createdAt = 300, updatedAt = 300\<rparr>],
         auto_increment = 3\<rparr>))
     = LogsJson [\<lparr>id' = 2, petName = ''Rex'', task = ''Walked'', time = 300,
                   createdAt = 300, updatedAt = 300\<rparr>,
                 \<lparr>id' = 1, petName = ''Milo'', task = ''Fed'', time = 100,
                   createdAt = 100, updatedAt = 100\<rparr>]
   \<and> status (fst (GET configured None one_log)) = 401"
  using GET_lists_all_newest_first
          [where e = configured
             and s = "\<lparr>user = Some \<lparr>uid = Some ''1017'', role = Some ''user''\<rparr>\<rparr>"
             and db = "\<lparr>logs = [\<lparr>id' = 1, petName = ''Milo'', task = ''Fed'', time = 100,
                                   createdAt = 100, updatedAt = 100\<rparr>,
                                 \<lparr>id' = 2, petName = ''Rex'', task = ''Walked'', time = 300,
                                   createdAt = 300, updatedAt = 300\<rparr>],
                         auto_increment = 3\<rparr>"]
        GET_lists_all_newest_first [where e = configured and db = one_log]
        getPool_configured
  by (simp add: viewer_session_def select_ordered_def)

section \<open>Roles by sign-in path\<close>

text \<open>
  C8. \<open>authorize\<close> returns a user exactly when the submitted email and password equal the
  fixed pair, and that user's role, and the role the \<open>jwt\<close> callback writes for it, is
  \<open>admin\<close>. A user object without a role (what the Google provider hands over: the
  configuration sets no profile mapping) signing in through the \<open>google\<close> account gets
  role \<open>user\<close>, and a session built from that token is not an admin's.
\<close>

theorem roles_by_sign_in_path:
  "(authorize creds \<noteq> None
      \<longleftrightarrow> (\<exists>c. creds = Some c \<and> email c = Some ADMIN_EMAIL \<and> password c = Some ADMIN_PASSWORD))
   \<and> (\<forall>u. authorize creds = Some u \<longrightarrow>
          user_role u = Some ''admin''
        \<and> token_role (jwt tok (Some u) acct) = Some ''admin'')
   \<and> (user_role g = None \<longrightarrow>
          token_role (jwt tok (Some g) (Some \<lparr>provider = ''google''\<rparr>)) = Some ''user''
        \<and> not_admin (Some (session_callback s
                              (jwt tok (Some g) (Some \<lparr>provider = ''google''\<rparr>)))))"
proof (intro conjI allI impI)
  show "authorize creds \<noteq> None
      \<longleftrightarrow> (\<exists>c. creds = Some c \<and> email c = Some ADMIN_EMAIL \<and> password c = Some ADMIN_PASSWORD)"
    by (cases creds) (simp_all add: authorize_def)
next
  fix u assume a: "authorize creds = Some u"
  then show r: "user_role u = Some ''admin''"
    by (cases creds) (auto simp: authorize_def split: if_splits)
  then show "token_role (jwt tok (Some u) acct) = Some ''admin''"
    by (simp add: jwt_def)
next
  assume g: "user_role g = None"
  then show t: "token_role (jwt tok (Some g) (Some \<lparr>provider = ''google''\<rparr>)) = Some ''user''"
    by (simp add: jwt_def)
  show "not_admin (Some (session_callback s (jwt tok (Some g) (Some \<lparr>provider = ''google''\<rparr>))))"
    using t by (cases "user s") (simp_all add: not_admin_def session_callback_def)
qed

theorem roles_by_sign_in_path_witness:
  "authorize (Some \<lparr>email = Some ''admin@petcare.com'', password = Some ''admin123''\<rparr>) \<noteq> None
   \<and> authorize (Some \<lparr>email = Some ''admin@petcare.com'', password = Some ''Admin123''\<rparr>) = None
   \<and> token_role (jwt \<lparr>token_role = None, token_id = None\<rparr>
         (Some \<lparr>user_id = Some ''1017'', user_email = Some ''ann@example.org'',
                 user_name = Some ''Ann'', user_role = None\<rparr>)
         (Some \<lparr>provider = ''google''\<rparr>)) = Some ''user''"
  using roles_by_sign_in_path
          [where creds = "Some \<lparr>email = Some ''admin@petcare.com'', password = Some ''admin123''\<rparr>"
             and g = "\<lparr>user_id = Some ''1017'', user_email = Some ''ann@example.org'',
                       user_name = Some ''Ann'', user_role = None\<rparr>"
             and tok = "\<lparr>token_role = None, token_id = None\<rparr>"]
        roles_by_sign_in_path
          [where creds = "Some \<lparr>email = Some ''admin@petcare.com'', password = Some ''Admin123''\<rparr>"]
  by (simp add: ADMIN_EMAIL_def ADMIN_PASSWORD_def)

section \<open>Whitespace-only fields\<close>

text \<open>
  C9. The presence check sees the untrimmed strings, so a \<open>petName\<close> or \<open>task\<close> made of
  white space only passes it; create then answers 201, and stores and returns as its payload
  a row with the empty string for that field, and update does the same with status 200 for
  a row that exists.
\<close>

theorem whitespace_only_fields_accepted:
  assumes admin: "\<not> not_admin sess" and pool: "getPool e = Inr ()" and wf: "wf_store db"
    and flds: "destructure b = Inr (Some (JStr p), Some (JStr t), Some tv)"
    and present: "p \<noteq> []" "t \<noteq> []" "truthy (Some tv)"
    and parsed: "Date tv = Some instant"
  shows "(let row = \<lparr>id' = auto_increment db,
                     petName = (if list_all StrWhiteSpaceChar p then [] else trim p),
                     task = (if list_all StrWhiteSpaceChar t then [] else trim t),
                     time = instant, createdAt = now, updatedAt = now\<rparr>
          in status (fst (POST Date now e sess (Some b) db)) = 201
           \<and> payload (fst (POST Date now e sess (Some b) db)) = LogJson row
           \<and> snd (POST Date now e sess (Some b) db)
               = db\<lparr>logs := logs db @ [row], auto_increment := auto_increment db + 1\<rparr>)
       \<and> (\<forall>r rs. isInteger (Number idParam) \<and> select_by_id (Number idParam) db = r # rs \<longrightarrow>
            (let row = r\<lparr>petName := (if list_all StrWhiteSpaceChar p then [] else trim p),
                          task := (if list_all StrWhiteSpaceChar t then [] else trim t),
                          time := instant, updatedAt := now\<rparr>
             in status (fst (PUT Date now e sess (Some b) idParam db)) = 200
              \<and> payload (fst (PUT Date now e sess (Some b) idParam db)) = LogJson row
              \<and> row \<in> set (logs (snd (PUT Date now e sess (Some b) idParam db)))))"
proof -
  have tp: "(if list_all StrWhiteSpaceChar p then [] else trim p) = trim p"
    by (simp add: trim_whitespace)
  have tt: "(if list_all StrWhiteSpaceChar t then [] else trim t) = trim t"
    by (simp add: trim_whitespace)
  let ?row = "\<lparr>id' = auto_increment db, petName = trim p, task = trim t, time = instant,
               createdAt = now, updatedAt = now\<rparr>"
  let ?db' = "db\<lparr>logs := logs db @ [?row], auto_increment := auto_increment db + 1\<rparr>"
  have ins: "insert_log (trim p) (trim t) instant now db = (auto_increment db, ?db')"
    by (simp add: insert_log_def)
  have sel: "select_by_id (Finite (of_int (auto_increment db))) ?db' = [?row]"
    using select_after_insert [OF wf, of "trim p" "trim t" instant now] by (simp add: ins)
  have post: "POST Date now e sess (Some b) db = (json_response (LogJson ?row) 201, ?db')"
    using admin pool flds present parsed sel by (simp add: POST_def ins)
  have created: "status (fst (POST Date now e sess (Some b) db)) = 201
               \<and> payload (fst (POST Date now e sess (Some b) db)) = LogJson ?row
               \<and> snd (POST Date now e sess (Some b) db) = ?db'"
    by (simp add: post json_response_def)
  have put: "status (fst (PUT Date now e sess (Some b) idParam db)) = 200
           \<and> payload (fst (PUT Date now e sess (Some b) idParam db))
               = LogJson (r\<lparr>petName := trim p, task := trim t, time := instant, updatedAt := now\<rparr>)
           \<and> r\<lparr>petName := trim p, task := trim t, time := instant, updatedAt := now\<rparr>
               \<in> set (logs (snd (PUT Date now e sess (Some b) idParam db)))"
    if int: "isInteger (Number idParam)" and hit: "select_by_id (Number idParam) db = r # rs"
    for r rs
  proof -
    have eq: "PUT Date now e sess (Some b) idParam db
                = (json_response
                     (LogJson (r\<lparr>petName := trim p, task := trim t, time := instant,
                                 updatedAt := now\<rparr>)) 200,
                   update_log (trim p) (trim t) instant now (Number idParam) db)"
      using PUT_present [where Date = Date and now = now, OF admin pool int hit flds present parsed] .
    have "r\<lparr>petName := trim p, task := trim t, time := instant, updatedAt := now\<rparr>
            \<in> set (select_by_id (Number idParam)
                     (update_log (trim p) (trim t) instant now (Number idParam) db))"
      by (simp add: select_after_update hit)
    then have "r\<lparr>petName := trim p, task := trim t, time := instant, updatedAt := now\<rparr>
            \<in> set (logs (update_log (trim p) (trim t) instant now (Number idParam) db))"
      by (simp add: select_by_id_def)
    then show ?thesis by (simp add: eq json_response_def)
  qed
  show ?thesis
    unfolding tp tt Let_def using created put by blast
qed

theorem whitespace_only_fields_accepted_witness:
  "status (fst (POST utc_Date 1704200000000 configured admin_session (Some blank_name) one_log))
     = 201
   \<and> payload (fst (POST utc_Date 1704200000000 configured admin_session (Some blank_name)
                     one_log))
     = LogJson \<lparr>id' = 2, petName = [], task = ''Fed'', time = 1704096000000,
                 createdAt = 1704200000000, updatedAt = 1704200000000\<rparr>
   \<and> snd (POST utc_Date 1704200000000 configured admin_session (Some blank_name) one_log)
     = \<lparr>logs = [\<lparr>id' = 1, petName = ''Milo'', task = ''Fed'', time = 1704096000000,
                   createdAt = 1704100000000, updatedAt = 1704100000000\<rparr>,
                 \<lparr>id' = 2, petName = [], task = ''Fed'', time = 1704096000000,
                   createdAt = 1704200000000, updatedAt = 1704200000000\<rparr>],
         auto_increment = 3\<rparr>
   \<and> status (fst (PUT utc_Date 1704200000000 configured admin_session (Some blank_name) ''1''
                    one_log)) = 200
   \<and> payload (fst (PUT utc_Date 1704200000000 configured admin_session (Some blank_name) ''1''
                     one_log))
     = LogJson \<lparr>id' = 1, petName = [], task = ''Fed'', time = 1704096000000,
                 createdAt = 1704100000000, updatedAt = 1704200000000\<rparr>
   \<and> \<lparr>id' = 1, petName = [], task = ''Fed'', time = 1704096000000,
        createdAt = 1704100000000, updatedAt = 1704200000000\<rparr>
       \<in> set (logs (snd (PUT utc_Date 1704200000000 configured admin_session (Some blank_name)
                            ''1'' one_log)))"
proof -
  have d: "destructure blank_name
             = Inr (Some (JStr ''   ''), Some (JStr ''Fed''), Some (JStr ''2024-01-01T08:00:00Z''))"
    by (simp add: blank_name_def destructure_def)
  have i1: "isInteger (Number ''1'')" by (simp add: Number_1)
  have hit: "select_by_id (Number ''1'') one_log = logs one_log"
    by (simp add: Number_1 select_by_id_def one_log_def id_is_def)
  have ws: "list_all StrWhiteSpaceChar ''   ''" "\<not> list_all StrWhiteSpaceChar ''Fed''"
    by (simp_all add: StrWhiteSpaceChar_def)
  show ?thesis
    using whitespace_only_fields_accepted
            [where Date = utc_Date and now = 1704200000000 and idParam = "''1''",
             OF admin_session_is_admin getPool_configured wf_one_log d _ _ _ utc_Date_milo]
          i1 hit ws
    by (simp add: Let_def trim_Milo one_log_def StrWhiteSpaceChar_def)
qed

section \<open>The client's merge after an update\<close>

text \<open>
  C10. While editing, the saved row replaces, in place, every entry of the local list with
  its id; the list keeps its length, and when no entry has that id the list is unchanged:
  the returned row is dropped.
\<close>

theorem merge_of_update_keyed_by_id:
  "length (setLogs_after_save True data prev) = length prev
   \<and> (\<forall>i < length prev.
         setLogs_after_save True data prev ! i
           = (if id' (prev ! i) = id' data then data else prev ! i))
   \<and> (id' data \<notin> id' ` set prev \<longrightarrow> setLogs_after_save True data prev = prev)"
proof (intro conjI allI impI)
  show "length (setLogs_after_save True data prev) = length prev"
    by (simp add: setLogs_after_save_def)
next
  fix i assume "i < length prev"
  then show "setLogs_after_save True data prev ! i
               = (if id' (prev ! i) = id' data then data else prev ! i)"
    by (simp add: setLogs_after_save_def)
next
  assume "id' data \<notin> id' ` set prev"
  then have "\<forall>item\<in>set prev. id' item \<noteq> id' data"
    by (metis imageI)
  then show "setLogs_after_save True data prev = prev"
    by (simp add: setLogs_after_save_def map_idI)
qed

theorem merge_of_update_keyed_by_id_witness:
  "setLogs_after_save True
       \<lparr>id' = 9, petName = ''Rex'', task = ''Walked'', time = 300, createdAt = 300,
         updatedAt = 400\<rparr> (logs one_log)
     = logs one_log
   \<and> setLogs_after_save True
       \<lparr>id' = 1, petName = ''Rex'', task = ''Walked'', time = 300, createdAt = 300,
         updatedAt = 400\<rparr> (logs one_log)
     = [\<lparr>id' = 1, petName = ''Rex'', task = ''Walked'', time = 300, createdAt = 300,
          updatedAt = 400\<rparr>]"
proof -
  let ?new = "\<lparr>id' = 9, petName = ''Rex'', task = ''Walked'', time = 300, createdAt = 300,
               updatedAt = 400\<rparr>"
  let ?same = "\<lparr>id' = 1, petName = ''Rex'', task = ''Walked'', time = 300, createdAt = 300,
                updatedAt = 400\<rparr>"
  have dropped: "setLogs_after_save True ?new (logs one_log) = logs one_log"
    using merge_of_update_keyed_by_id [of ?new "logs one_log"] by (simp add: one_log_def)
  have "length (setLogs_after_save True ?same (logs one_log)) = 1
        \<and> setLogs_after_save True ?same (logs one_log) ! 0 = ?same"
    using merge_of_update_keyed_by_id [of ?same "logs one_log"] by (simp add: one_log_def)
  then have replaced: "setLogs_after_save True ?same (logs one_log) = [?same]"
    by (cases "setLogs_after_save True ?same (logs one_log)") simp_all
  show ?thesis using dropped replaced by simp
qed

end
